theory Spec2Isabelle
  imports Main
begin

section \<open>JavaScript values used by the validators\<close>

text \<open>
  A JavaScript string is modelled as a \<open>string\<close> (a list of characters); \<open>length\<close> is
  the string's \<open>.length\<close> and \<open>s ! i\<close> is \<open>s[i]\<close> for an index inside the string.
  The characters are the code units 0 to 255; strings with a code unit above 255 are
  outside the model.
  A JavaScript number is an integer or \<open>NaN\<close>: every number the validators compute is
  a small integer, or \<open>NaN\<close> once \<open>parseInt\<close> has met a character that is not a digit.
\<close>

datatype jsnum = Num int | NaN

definition is_digit :: "char \<Rightarrow> bool" where
  \<comment> \<open>the regular-expression class \<open>\d\<close>: the ten characters 0 to 9\<close>
  "is_digit c = (48 \<le> (of_char c :: nat) \<and> (of_char c :: nat) \<le> 57)"

definition parseInt :: "char \<Rightarrow> jsnum" where
  \<comment> \<open>\<open>parseInt\<close> of a string of one character: the digit's value, or \<open>NaN\<close>\<close>
  "parseInt c = (if is_digit c then Num (int (of_char c) - 48) else NaN)"

fun js_add :: "jsnum \<Rightarrow> jsnum \<Rightarrow> jsnum" where
  "js_add (Num a) (Num b) = Num (a + b)"
| "js_add _ _ = NaN"

fun js_sub :: "jsnum \<Rightarrow> jsnum \<Rightarrow> jsnum" where
  "js_sub (Num a) (Num b) = Num (a - b)"
| "js_sub _ _ = NaN"

fun js_mul :: "jsnum \<Rightarrow> jsnum \<Rightarrow> jsnum" where
  "js_mul (Num a) (Num b) = Num (a * b)"
| "js_mul _ _ = NaN"

fun js_rem :: "jsnum \<Rightarrow> jsnum \<Rightarrow> jsnum" where
  \<comment> \<open>the operator \<open>%\<close>: the remainder has the sign of the dividend, \<open>x % 0\<close> is \<open>NaN\<close>\<close>
  "js_rem (Num a) (Num b) = (if b = 0 then NaN else Num (sgn a * (\<bar>a\<bar> mod \<bar>b\<bar>)))"
| "js_rem _ _ = NaN"

fun js_lt :: "jsnum \<Rightarrow> jsnum \<Rightarrow> bool" where
  \<comment> \<open>the operator \<open><\<close>: false when either side is \<open>NaN\<close>\<close>
  "js_lt (Num a) (Num b) = (a < b)"
| "js_lt _ _ = False"

fun js_eq :: "jsnum \<Rightarrow> jsnum \<Rightarrow> bool" where
  \<comment> \<open>the operator \<open>===\<close> on numbers: \<open>NaN\<close> equals nothing, itself included\<close>
  "js_eq (Num a) (Num b) = (a = b)"
| "js_eq _ _ = False"

section \<open>ValidationUtils.validateNationalId\<close>

definition all_same_digit :: "string \<Rightarrow> bool" where
  \<comment> \<open>\<open>/^(\d)\1{9}$/.test(s)\<close>: one digit, then the same character nine more times\<close>
  "all_same_digit s = (case s of [] \<Rightarrow> False | c # cs \<Rightarrow> is_digit c \<and> cs = replicate 9 c)"

definition checksum_step :: "string \<Rightarrow> nat \<Rightarrow> jsnum \<Rightarrow> jsnum" where
  \<comment> \<open>the loop body \<open>sum += parseInt(nationalId[i]) * (10 - i)\<close>\<close>
  "checksum_step nationalId i sumv =
     js_add sumv (js_mul (parseInt (nationalId ! i)) (Num (10 - int i)))"

definition checksum :: "string \<Rightarrow> jsnum" where
  \<comment> \<open>\<open>let sum = 0; for (let i = 0; i < 9; i++) ...\<close>\<close>
  "checksum nationalId = fold (checksum_step nationalId) [0..<9] (Num 0)"

definition validateNationalId :: "string \<Rightarrow> bool" where
  "validateNationalId nationalId =
     (if nationalId = [] \<or> length nationalId \<noteq> 10 then False
      else if all_same_digit nationalId then False
      else
        let sumv = checksum nationalId;
            remainder = js_rem sumv (Num 11);
            checkDigit = parseInt (nationalId ! 9)
        in if js_lt remainder (Num 2) then js_eq checkDigit remainder
           else js_eq checkDigit (js_sub (Num 11) remainder))"

text \<open>
  The specification's reading of the check digit, for a string of ten decimal digits:
  the weighted sum of the first nine digits, its remainder modulo 11, and the digit the
  tenth position is expected to hold.
\<close>

definition digit_value :: "char \<Rightarrow> nat" where
  "digit_value c = of_char c - 48"

definition spec_sum :: "string \<Rightarrow> nat" where
  "spec_sum s = (\<Sum>i = 0..<9. digit_value (s ! i) * (10 - i))"

definition spec_check_digit :: "string \<Rightarrow> nat" where
  "spec_check_digit s =
     (let remainder = spec_sum s mod 11 in if remainder < 2 then remainder else 11 - remainder)"

definition matches_ten_digits :: "string \<Rightarrow> bool" where
  \<comment> \<open>the specification's pattern \<open>^\d{10}$\<close>\<close>
  "matches_ten_digits s = (length s = 10 \<and> list_all is_digit s)"

definition all_identical :: "string \<Rightarrow> bool" where
  "all_identical s = (\<forall>c \<in> set s. c = hd s)"

section \<open>ValidationUtils.validatePhoneNumber\<close>

text \<open>
  The regular expressions of the validators, as syntax trees. \<open>Opt r\<close> is \<open>r?\<close>,
  \<open>rep n r\<close> is \<open>r{n}\<close>, \<open>Digit\<close> is \<open>\d\<close>. \<open>regex_test r s\<close> is \<open>r.test(s)\<close> for a
  pattern anchored by \<open>^\<close> and \<open>$\<close>: the whole of \<open>s\<close> has to match. It is computed by
  taking the derivative of the pattern by each character of \<open>s\<close> in turn.
\<close>

datatype regex =
    Fail
  | Eps
  | Chr char
  | Digit
  | Seq regex regex
  | Alt regex regex
  | Opt regex

fun rep :: "nat \<Rightarrow> regex \<Rightarrow> regex" where
  "rep 0 r = Eps"
| "rep (Suc n) r = Seq r (rep n r)"

fun nullable :: "regex \<Rightarrow> bool" where
  "nullable Fail = False"
| "nullable Eps = True"
| "nullable (Chr c) = False"
| "nullable Digit = False"
| "nullable (Seq r s) = (nullable r \<and> nullable s)"
| "nullable (Alt r s) = (nullable r \<or> nullable s)"
| "nullable (Opt r) = True"

fun deriv :: "char \<Rightarrow> regex \<Rightarrow> regex" where
  "deriv c Fail = Fail"
| "deriv c Eps = Fail"
| "deriv c (Chr d) = (if c = d then Eps else Fail)"
| "deriv c Digit = (if is_digit c then Eps else Fail)"
| "deriv c (Seq r s) =
     (if nullable r then Alt (Seq (deriv c r) s) (deriv c s) else Seq (deriv c r) s)"
| "deriv c (Alt r s) = Alt (deriv c r) (deriv c s)"
| "deriv c (Opt r) = deriv c r"

definition regex_test :: "regex \<Rightarrow> string \<Rightarrow> bool" where
  "regex_test r s = nullable (fold deriv s r)"

fun lang :: "regex \<Rightarrow> string set" where
  \<comment> \<open>the strings a pattern matches\<close>
  "lang Fail = {}"
| "lang Eps = {[]}"
| "lang (Chr c) = {[c]}"
| "lang Digit = {[c] | c. is_digit c}"
| "lang (Seq r s) = {u @ v | u v. u \<in> lang r \<and> v \<in> lang s}"
| "lang (Alt r s) = lang r \<union> lang s"
| "lang (Opt r) = insert [] (lang r)"

definition is_space :: "char \<Rightarrow> bool" where
  \<comment> \<open>the class \<open>\s\<close> among the characters of \<open>string\<close>: tab, line feed, vertical tab,
      form feed, carriage return, space and no-break space\<close>
  "is_space c = ((of_char c :: nat) \<in> {9, 10, 11, 12, 13, 32, 160})"

definition phoneRegex :: regex where
  \<comment> \<open>\<open>/^(\+98|0)?9\d{9}$/\<close>\<close>
  "phoneRegex =
     Seq (Opt (Alt (Seq (Chr CHR ''+'') (Seq (Chr CHR ''9'') (Chr CHR ''8''))) (Chr CHR ''0'')))
         (Seq (Chr CHR ''9'') (rep 9 Digit))"

definition validatePhoneNumber :: "string \<Rightarrow> bool" where
  "validatePhoneNumber phone =
     (if phone = [] then True
      else regex_test phoneRegex (filter (\<lambda>c. \<not> is_space c) phone))"

text \<open>
  The pattern in words: nine followed by nine digits, after an optional prefix \<open>+98\<close> or
  \<open>0\<close>.
\<close>

definition nine_then_nine_digits :: "string \<Rightarrow> bool" where
  "nine_then_nine_digits t =
     (case t of [] \<Rightarrow> False | c # ds \<Rightarrow> c = CHR ''9'' \<and> length ds = 9 \<and> list_all is_digit ds)"

definition iranian_mobile :: "string \<Rightarrow> bool" where
  "iranian_mobile t =
     (nine_then_nine_digits t
      \<or> (take 3 t = ''+98'' \<and> nine_then_nine_digits (drop 3 t))
      \<or> (take 1 t = ''0'' \<and> nine_then_nine_digits (drop 1 t)))"

section \<open>The tables of the backend\<close>

text \<open>
  \<open>Student\<close> and \<open>ExpectedStudent\<close> are the interfaces of the client module; a field
  marked optional there is an \<open>option\<close> here. \<open>ExpectedStudentInput\<close> is
  \<open>Omit<ExpectedStudent, 'id' | 'created_at'>\<close>, the rows a caller hands to an upload;
  \<open>ExpectedStudent\<close> extends it by the two columns the table fills in (\<open>row_id\<close> is the
  column \<open>id\<close>). Timestamps are integers.
\<close>

record Student =
  student_id :: nat
  student_first_name :: string
  student_last_name :: string
  student_father_name :: string
  student_father_job :: "string option"
  student_mother_job :: "string option"
  student_national_id :: string
  student_home_address :: "string option"
  student_special_illness :: "string option"
  student_father_phone :: "string option"
  student_mother_phone :: "string option"
  student_student_phone :: "string option"
  student_class_name :: string
  student_created_at :: int
  student_updated_at :: int

record ExpectedStudentInput =
  first_name :: string
  last_name :: string
  national_id :: string
  class_name :: string
  is_registered :: "bool option"
  upload_session_id :: "string option"

record ExpectedStudent = ExpectedStudentInput +
  row_id :: nat
  created_at :: int

text \<open>
  The state of the backend: the two tables, the sequence behind the \<open>SERIAL\<close> column of
  \<open>expected_students\<close> and the clock that \<open>DEFAULT NOW()\<close> reads. The backend is taken
  to answer every request; the one failure it reports is an insert that the table
  definition refuses.
\<close>

record database =
  students :: "Student list"
  expected_students :: "ExpectedStudent list"
  expected_students_serial :: nat
  clock :: int

datatype db_error = UniqueViolation | ValueTooLong | InvalidText

definition delete_expected_where_session :: "string \<Rightarrow> database \<Rightarrow> database" where
  \<comment> \<open>\<open>from('expected_students').delete().eq('upload_session_id', sessionId)\<close>\<close>
  "delete_expected_where_session sessionId db =
     db\<lparr>expected_students :=
          filter (\<lambda>r. upload_session_id r \<noteq> Some sessionId) (expected_students db)\<rparr>"

text \<open>
  What the table definition does to the values of an insert. A \<open>VARCHAR(n)\<close> column
  takes a value of at most \<open>n\<close> characters as it is; it takes a longer value only when
  every character beyond the first \<open>n\<close> is a blank, and then stores the first \<open>n\<close>
  characters; any other longer value is refused. A text value may not hold the
  character with code 0. \<open>national_id\<close> is \<open>UNIQUE\<close>: the rows are written one after the
  other, and the first whose stored identity number is already in the table, or was
  written by an earlier row of the same insert, makes the whole insert fail; the
  sequence behind \<open>id\<close> keeps the values drawn up to that row.
\<close>

definition varchar_accepts :: "nat \<Rightarrow> string \<Rightarrow> bool" where
  "varchar_accepts n s = (length s \<le> n \<or> list_all (\<lambda>c. c = CHR '' '') (drop n s))"

definition varchar_value :: "nat \<Rightarrow> string \<Rightarrow> string" where
  \<comment> \<open>the value stored for an accepted \<open>s\<close>\<close>
  "varchar_value n s = take n s"

definition is_text :: "string \<Rightarrow> bool" where
  "is_text s = (CHR 0x00 \<notin> set s)"

definition text_columns :: "ExpectedStudentInput \<Rightarrow> bool" where
  "text_columns s =
     (is_text (first_name s) \<and> is_text (last_name s) \<and> is_text (national_id s) \<and>
      is_text (class_name s) \<and>
      (case upload_session_id s of None \<Rightarrow> True | Some u \<Rightarrow> is_text u))"

definition fits_columns :: "ExpectedStudentInput \<Rightarrow> bool" where
  \<comment> \<open>the \<open>VARCHAR\<close> widths of the table definition\<close>
  "fits_columns s =
     (varchar_accepts 255 (first_name s) \<and> varchar_accepts 255 (last_name s) \<and>
      varchar_accepts 20 (national_id s) \<and> varchar_accepts 10 (class_name s) \<and>
      (case upload_session_id s of None \<Rightarrow> True | Some u \<Rightarrow> varchar_accepts 255 u))"

definition column_values :: "ExpectedStudentInput \<Rightarrow> ExpectedStudentInput" where
  \<comment> \<open>the values of a row as the columns store them\<close>
  "column_values s =
     \<lparr>first_name = varchar_value 255 (first_name s),
      last_name = varchar_value 255 (last_name s),
      national_id = varchar_value 20 (national_id s),
      class_name = varchar_value 10 (class_name s),
      is_registered = is_registered s,
      upload_session_id = map_option (varchar_value 255) (upload_session_id s)\<rparr>"

fun first_duplicate :: "string list \<Rightarrow> string list \<Rightarrow> nat option" where
  \<comment> \<open>the index of the first value that is among \<open>seen\<close> or among the values before it\<close>
  "first_duplicate seen [] = None"
| "first_duplicate seen (x # xs) =
     (if x \<in> set seen then Some 0 else map_option Suc (first_duplicate (x # seen) xs))"

definition stored_row :: "int \<Rightarrow> bool \<Rightarrow> nat \<times> ExpectedStudentInput \<Rightarrow> ExpectedStudent" where
  \<comment> \<open>the row the table stores: \<open>id\<close> and \<open>created_at\<close> are filled in. The client sends
      the column \<open>is_registered\<close> when some row of the insert has the field
      (\<open>flag_sent\<close>); a row without the field is then stored with \<open>NULL\<close>, and with the
      default \<open>FALSE\<close> when the column is not sent\<close>
  "stored_row now flag_sent p =
     (case p of (i, s) \<Rightarrow>
       \<lparr>first_name = first_name s, last_name = last_name s, national_id = national_id s,
        class_name = class_name s,
        is_registered =
          (case is_registered s of
             None \<Rightarrow> if flag_sent then None else Some False
           | Some b \<Rightarrow> Some b),
        upload_session_id = upload_session_id s,
        row_id = i, created_at = now\<rparr>)"

definition insert_expected ::
  "ExpectedStudentInput list \<Rightarrow> database \<Rightarrow> (db_error + ExpectedStudent list) \<times> database" where
  \<comment> \<open>\<open>from('expected_students').insert(rows).select()\<close>: one statement, all rows or none\<close>
  "insert_expected rows db =
     (if \<not> list_all text_columns rows then (Inl InvalidText, db)
      else if \<not> list_all fits_columns rows then (Inl ValueTooLong, db)
      else
        let vals = map column_values rows;
            serial = expected_students_serial db
        in case first_duplicate (map national_id (expected_students db)) (map national_id vals) of
             Some i \<Rightarrow> (Inl UniqueViolation, db\<lparr>expected_students_serial := serial + i + 1\<rparr>)
           | None \<Rightarrow>
               let flag_sent = list_ex (\<lambda>s. is_registered s \<noteq> None) rows;
                   data = map (stored_row (clock db) flag_sent)
                              (zip [serial..<serial + length vals] vals)
               in (Inr data, db\<lparr>expected_students := expected_students db @ data,
                                expected_students_serial := serial + length vals\<rparr>))"

definition update_is_registered_where_id :: "nat \<Rightarrow> bool \<Rightarrow> database \<Rightarrow> database" where
  \<comment> \<open>\<open>from('expected_students').update({ is_registered: b }).eq('id', i)\<close>\<close>
  "update_is_registered_where_id i b db =
     db\<lparr>expected_students :=
          map (\<lambda>r. if row_id r = i then r\<lparr>is_registered := Some b\<rparr> else r)
              (expected_students db)\<rparr>"

section \<open>StudentService and ExpectedStudentService\<close>

definition getAllStudents :: "database \<Rightarrow> Student list" where
  \<comment> \<open>\<open>select('*').order('created_at', { ascending: false })\<close>\<close>
  "getAllStudents db = sort_key (\<lambda>s. - student_created_at s) (students db)"

definition getExpectedStudents :: "string option \<Rightarrow> database \<Rightarrow> ExpectedStudent list" where
  \<comment> \<open>the filter on the session is added only \<open>if (sessionId)\<close>: an absent or empty
      identifier selects every row\<close>
  "getExpectedStudents sessionId db =
     (let query =
        (case sessionId of
           None \<Rightarrow> expected_students db
         | Some sid \<Rightarrow>
             if sid \<noteq> [] then filter (\<lambda>r. upload_session_id r = Some sid) (expected_students db)
             else expected_students db)
      in sort_key (\<lambda>r. - created_at r) query)"

definition uploadExpectedStudents ::
  "ExpectedStudentInput list \<Rightarrow> string \<Rightarrow> database \<Rightarrow>
   (db_error + ExpectedStudent list) \<times> database" where
  "uploadExpectedStudents studentsIn sessionId db =
     (let db1 = delete_expected_where_session sessionId db;
          studentsWithSession = map (\<lambda>student. student\<lparr>upload_session_id := Some sessionId\<rparr>) studentsIn
      in case insert_expected studentsWithSession db1 of
           (Inl error, db2) \<Rightarrow> (Inl error, db2)
         | (Inr data, db2) \<Rightarrow> (Inr data, db2))"

definition getUnregisteredStudents :: "string \<Rightarrow> database \<Rightarrow> ExpectedStudent list" where
  "getUnregisteredStudents sessionId db =
     (let expectedStudents = getExpectedStudents (Some sessionId) db;
          registeredStudents = getAllStudents db;
          registeredNationalIds = set (map student_national_id registeredStudents);
          unregistered = filter (\<lambda>expected. national_id expected \<notin> registeredNationalIds) expectedStudents
      in unregistered)"

definition updateRegistrationStatus :: "string \<Rightarrow> database \<Rightarrow> database" where
  "updateRegistrationStatus sessionId db =
     (let expectedStudents = getExpectedStudents (Some sessionId) db;
          registeredStudents = getAllStudents db;
          registeredNationalIds = set (map student_national_id registeredStudents)
      in fold (\<lambda>expected db'.
                 let isRegistered = national_id expected \<in> registeredNationalIds
                 in update_is_registered_where_id (row_id expected) isRegistered db')
              expectedStudents db)"

text \<open>
  The specification's \<open>updates\<close>: the mapping from the identity number of each expected
  record to the flag the loop of \<open>updateRegistrationStatus\<close> computes for it.
\<close>

definition registration_updates :: "string \<Rightarrow> database \<Rightarrow> (string \<rightharpoonup> bool)" where
  "registration_updates sessionId db =
     map_of (map (\<lambda>expected. (national_id expected,
                               national_id expected \<in> set (map student_national_id (getAllStudents db))))
                 (getExpectedStudents (Some sessionId) db))"

definition primary_key :: "database \<Rightarrow> bool" where
  \<comment> \<open>\<open>id SERIAL PRIMARY KEY\<close>: no two rows of \<open>expected_students\<close> share an \<open>id\<close>\<close>
  "primary_key db = distinct (map row_id (expected_students db))"

section \<open>TrackingSystem.handleFileUpload\<close>

text \<open>
  A parsed spreadsheet is a list of rows; a row maps a column header to the cell under
  it. A cell is text, a number or a boolean. The code looks at a numeric cell in two
  ways only, its truth value and the text \<open>String\<close> prints for it, so a number is given
  by these two. The sixteen headers the code reads have a constructor each (four
  aliases for each of the four fields, the first and the last of each four being
  Persian); any other header is \<open>Other\<close>.
\<close>

datatype cell = Text string | Number (nonzero: bool) (printed: string) | Boolean bool

datatype header =
    H_nam | H_first_name | H_FirstName | H_nam_kuchak
  | H_nam_khanevadegi | H_last_name | H_LastName | H_nam_famil
  | H_kod_melli | H_national_id | H_NationalId | H_shenase_melli
  | H_kelas | H_class | H_Class | H_kelas_tahsili
  | Other string

type_synonym row = "header \<rightharpoonup> cell"

fun truthy :: "cell \<Rightarrow> bool" where
  "truthy (Text s) = (s \<noteq> [])"
| "truthy (Number nz p) = nz"
| "truthy (Boolean b) = b"

fun first_truthy :: "cell option list \<Rightarrow> cell" where
  \<comment> \<open>\<open>a || b || c || d || ''\<close>, an absent column being \<open>undefined\<close>\<close>
  "first_truthy [] = Text []"
| "first_truthy (None # vs) = first_truthy vs"
| "first_truthy (Some v # vs) = (if truthy v then v else first_truthy vs)"

fun to_String :: "cell \<Rightarrow> string" where
  "to_String (Text s) = s"
| "to_String (Number nz p) = p"
| "to_String (Boolean b) = (if b then ''true'' else ''false'')"

definition trim :: "string \<Rightarrow> string" where
  "trim s = rev (dropWhile is_space (rev (dropWhile is_space s)))"

function collapse_spaces :: "string \<Rightarrow> string" where
  \<comment> \<open>\<open>replace(/\s+/g, ' ')\<close>\<close>
  "collapse_spaces [] = []"
| "collapse_spaces (c # cs) =
     (if is_space c then CHR '' '' # collapse_spaces (dropWhile is_space cs)
      else c # collapse_spaces cs)"
  by pat_completeness auto
termination
  by (relation "measure length") (auto simp add: less_Suc_eq_le length_dropWhile_le)

datatype js_error = TypeError

definition sanitizeInput :: "cell \<Rightarrow> js_error + string" where
  \<comment> \<open>\<open>input.trim().replace(/\s+/g, ' ')\<close>; only a string has \<open>trim\<close>\<close>
  "sanitizeInput v =
     (case v of Text s \<Rightarrow> Inr (collapse_spaces (trim s)) | _ \<Rightarrow> Inl TypeError)"

definition validClasses :: "string list" where
  "validClasses = [''701'', ''702'', ''703'', ''801'', ''802'', ''803'', ''804'', ''805'', ''806'', ''807'']"

definition isValidClass :: "string \<Rightarrow> bool" where
  "isValidClass className = (className \<in> set validClasses)"

datatype row_error = RequiredFieldsMissing | InvalidNationalId | InvalidClass | ProcessingError

definition firstName_of :: "row \<Rightarrow> cell" where
  "firstName_of r = first_truthy [r H_nam, r H_first_name, r H_FirstName, r H_nam_kuchak]"

definition lastName_of :: "row \<Rightarrow> cell" where
  "lastName_of r = first_truthy [r H_nam_khanevadegi, r H_last_name, r H_LastName, r H_nam_famil]"

definition nationalId_of :: "row \<Rightarrow> string" where
  \<comment> \<open>\<open>String(...).replace(/\D/g, '')\<close>\<close>
  "nationalId_of r =
     filter is_digit
       (to_String (first_truthy [r H_kod_melli, r H_national_id, r H_NationalId, r H_shenase_melli]))"

definition className_of :: "row \<Rightarrow> string" where
  "className_of r = to_String (first_truthy [r H_kelas, r H_class, r H_Class, r H_kelas_tahsili])"

definition process_row :: "row \<Rightarrow> row_error + ExpectedStudentInput" where
  \<comment> \<open>the body of the \<open>forEach\<close> callback: an error message or the record pushed\<close>
  "process_row r =
     (let firstName = firstName_of r;
          lastName = lastName_of r;
          nationalId = nationalId_of r;
          className = className_of r
      in if \<not> truthy firstName \<or> \<not> truthy lastName \<or> nationalId = [] \<or> className = []
           then Inl RequiredFieldsMissing
         else if length nationalId \<noteq> 10 \<or> \<not> validateNationalId nationalId
           then Inl InvalidNationalId
         else if \<not> isValidClass className
           then Inl InvalidClass
         else
           (case sanitizeInput firstName of
              Inl e \<Rightarrow> Inl ProcessingError
            | Inr cleanFirst \<Rightarrow>
                (case sanitizeInput lastName of
                   Inl e \<Rightarrow> Inl ProcessingError
                 | Inr cleanLast \<Rightarrow>
                     Inr \<lparr>first_name = cleanFirst, last_name = cleanLast, national_id = nationalId,
                          class_name = className, is_registered = Some False,
                          upload_session_id = None\<rparr>)))"

definition row_step ::
  "nat \<times> row \<Rightarrow> ExpectedStudentInput list \<times> (nat \<times> row_error) list \<Rightarrow>
   ExpectedStudentInput list \<times> (nat \<times> row_error) list" where
  \<comment> \<open>one round of the \<open>forEach\<close>: push a record, or push the message of row \<open>index + 2\<close>\<close>
  "row_step p acc =
     (case p of (index, r) \<Rightarrow>
       (case acc of (expectedStudents, errors) \<Rightarrow>
         (case process_row r of
            Inl e \<Rightarrow> (expectedStudents, errors @ [(index + 2, e)])
          | Inr s \<Rightarrow> (expectedStudents @ [s], errors))))"

definition process_rows ::
  "row list \<Rightarrow> ExpectedStudentInput list \<times> (nat \<times> row_error) list" where
  "process_rows excelData = fold row_step (enumerate 0 excelData) ([], [])"

datatype upload_error =
    FileEmpty
  | NoValidRecords "(nat \<times> row_error) list"
  | BackendError db_error

definition handleFileUpload ::
  "row list \<Rightarrow> string \<Rightarrow> database \<Rightarrow>
   (upload_error + ExpectedStudent list \<times> nat \<times> nat) \<times> database" where
  \<comment> \<open>from the parsed rows on; \<open>sessionId\<close> is what \<open>generateSessionId\<close> returned. The
      result is the error shown, or the rows stored with the two counts of the message\<close>
  "handleFileUpload excelData sessionId db =
     (if excelData = [] then (Inl FileEmpty, db)
      else
        (case process_rows excelData of (expectedStudents, errors) \<Rightarrow>
          if length errors > 0 \<and> length expectedStudents = 0
            then (Inl (NoValidRecords (take 5 errors)), db)
          else
            (case uploadExpectedStudents expectedStudents sessionId db of
               (Inl error, db') \<Rightarrow> (Inl (BackendError error), db')
             | (Inr uploadedData, db') \<Rightarrow>
                 (Inr (uploadedData, length expectedStudents, length errors), db'))))"

text \<open>
  The three defects of a row that the specification names, read off the fields the code
  extracts.
\<close>

definition missing_field :: "row \<Rightarrow> bool" where
  "missing_field r =
     (\<not> truthy (firstName_of r) \<or> \<not> truthy (lastName_of r) \<or> nationalId_of r = [] \<or> className_of r = [])"

definition invalid_identity :: "row \<Rightarrow> bool" where
  "invalid_identity r = (\<not> validateNationalId (nationalId_of r))"

definition invalid_class :: "row \<Rightarrow> bool" where
  "invalid_class r = (\<not> isValidClass (className_of r))"

definition names_are_text :: "row \<Rightarrow> bool" where
  "names_are_text r =
     ((case firstName_of r of Text s \<Rightarrow> True | _ \<Rightarrow> False) \<and>
      (case lastName_of r of Text s \<Rightarrow> True | _ \<Rightarrow> False))"

section \<open>Example data\<close>

text \<open>
  The end-to-end scenario of the specification: one registered student with identity
  number \<open>0010010011\<close> in class 701, and two expected students of batch \<open>B1\<close>, the
  first with that identity number and the second with \<open>0020020022\<close>. A third
  expected student belongs to another batch, \<open>B2\<close>.
\<close>

definition example_student :: Student where
  "example_student =
     \<lparr>student_id = 1, student_first_name = ''Ali'', student_last_name = ''Rezaei'',
      student_father_name = ''Hasan'', student_father_job = None, student_mother_job = None,
      student_national_id = ''0010010011'', student_home_address = None,
      student_special_illness = None, student_father_phone = None,
      student_mother_phone = None, student_student_phone = None,
      student_class_name = ''701'', student_created_at = 5, student_updated_at = 5\<rparr>"

definition example_expected_1 :: ExpectedStudent where
  "example_expected_1 =
     \<lparr>first_name = ''Ali'', last_name = ''Rezaei'', national_id = ''0010010011'',
      class_name = ''701'', is_registered = Some False, upload_session_id = Some ''B1'',
      row_id = 1, created_at = 7\<rparr>"

definition example_expected_2 :: ExpectedStudent where
  "example_expected_2 =
     \<lparr>first_name = ''Sara'', last_name = ''Karimi'', national_id = ''0020020022'',
      class_name = ''702'', is_registered = Some False, upload_session_id = Some ''B1'',
      row_id = 2, created_at = 7\<rparr>"

definition example_expected_3 :: ExpectedStudent where
  \<comment> \<open>a row of another batch\<close>
  "example_expected_3 =
     \<lparr>first_name = ''Mina'', last_name = ''Moradi'', national_id = ''0030030033'',
      class_name = ''801'', is_registered = Some False, upload_session_id = Some ''B2'',
      row_id = 3, created_at = 8\<rparr>"

definition example_db :: database where
  "example_db =
     \<lparr>students = [example_student],
      expected_students = [example_expected_1, example_expected_2, example_expected_3],
      expected_students_serial = 4, clock = 9\<rparr>"


text \<open>
  Three spreadsheet rows: a well-formed one (the class is a numeric cell, the family
  name has stray blanks), one whose identity number is a numeric cell that lost its
  leading zero, and one whose given name is a numeric cell.
\<close>

definition example_row :: row where
  "example_row =
     [H_first_name \<mapsto> Text ''Reza'', H_last_name \<mapsto> Text '' Ahmadi  Nejad '',
      H_national_id \<mapsto> Text ''0499370899'', H_class \<mapsto> Number True ''801'']"

definition example_row_bad_id :: row where
  "example_row_bad_id =
     [H_first_name \<mapsto> Text ''Sara'', H_last_name \<mapsto> Text ''Karimi'',
      H_national_id \<mapsto> Number True ''499370899'', H_class \<mapsto> Text ''801'']"

definition example_row_numeric_name :: row where
  "example_row_numeric_name =
     [H_first_name \<mapsto> Number True ''5'', H_last_name \<mapsto> Text ''Ahmadi'',
      H_national_id \<mapsto> Text ''0499370899'', H_class \<mapsto> Text ''801'']"

section \<open>Properties of validateNationalId\<close>

lemma checksum_step_NaN [simp]: "checksum_step s i NaN = NaN"
  by (simp add: checksum_step_def)

lemma parseInt_digit: "is_digit c \<Longrightarrow> parseInt c = Num (int (digit_value c))"
  by (simp add: parseInt_def digit_value_def is_digit_def)

lemma parseInt_nondigit: "\<not> is_digit c \<Longrightarrow> parseInt c = NaN"
  by (simp add: parseInt_def)

lemma checksum_step_digit:
  "is_digit (s ! i) \<Longrightarrow> i \<le> 10 \<Longrightarrow>
   checksum_step s i (Num a) = Num (a + int (digit_value (s ! i) * (10 - i)))"
  by (simp add: checksum_step_def parseInt_digit of_nat_diff)

lemma fold_digits:
  "n \<le> 9 \<Longrightarrow> \<forall>i<n. is_digit (s ! i) \<Longrightarrow>
   fold (checksum_step s) [0..<n] (Num 0) = Num (int (\<Sum>i = 0..<n. digit_value (s ! i) * (10 - i)))"
proof (induction n)
  case 0
  then show ?case by simp
next
  case (Suc n)
  then have IH: "fold (checksum_step s) [0..<n] (Num 0) = Num (int (\<Sum>i = 0..<n. digit_value (s ! i) * (10 - i)))"
    by simp
  have d: "is_digit (s ! n)" using Suc.prems by simp
  have "fold (checksum_step s) [0..<Suc n] (Num 0)
        = checksum_step s n (fold (checksum_step s) [0..<n] (Num 0))"
    by simp
  also have "\<dots> = Num (int (\<Sum>i = 0..<n. digit_value (s ! i) * (10 - i)) + int (digit_value (s ! n) * (10 - n)))"
    using d Suc.prems(1) by (simp only: IH checksum_step_digit)
  finally show ?case by simp
qed

lemma fold_nondigit:
  "i < n \<Longrightarrow> \<not> is_digit (s ! i) \<Longrightarrow> fold (checksum_step s) [0..<n] a = NaN"
proof (induction n)
  case 0
  then show ?case by simp
next
  case (Suc n)
  show ?case
  proof (cases "i = n")
    case True
    with Suc.prems show ?thesis
      by (simp add: checksum_step_def parseInt_nondigit)
  next
    case False
    with Suc.prems have "fold (checksum_step s) [0..<n] a = NaN"
      using Suc.IH by simp
    then show ?thesis by simp
  qed
qed

lemma checksum_digits:
  assumes "matches_ten_digits s"
  shows "checksum s = Num (int (spec_sum s))"
proof -
  have "\<forall>i<9. is_digit (s ! i)"
    using assms by (simp add: matches_ten_digits_def list_all_length)
  then show ?thesis
    unfolding checksum_def spec_sum_def by (intro fold_digits) simp_all
qed

lemma all_same_digit_iff:
  assumes "matches_ten_digits s"
  shows "all_same_digit s = all_identical s"
proof (cases s)
  case Nil
  with assms show ?thesis by (simp add: matches_ten_digits_def)
next
  case (Cons c cs)
  with assms have len: "length cs = 9" and d: "is_digit c"
    by (simp_all add: matches_ten_digits_def)
  have "(cs = replicate 9 c) = (\<forall>x\<in>set cs. x = c)"
  proof
    assume "cs = replicate 9 c"
    then have "set cs \<subseteq> {c}" by (metis set_replicate_conv_if empty_subsetI subset_refl)
    then show "\<forall>x\<in>set cs. x = c" by blast
  next
    assume "\<forall>x\<in>set cs. x = c"
    then have "replicate (length cs) c = cs" by (rule replicate_length_same)
    with len show "cs = replicate 9 c" by simp
  qed
  with Cons d show ?thesis
    by (simp add: all_same_digit_def all_identical_def)
qed

lemma validate_digits:
  assumes "matches_ten_digits s"
  shows "validateNationalId s = (\<not> all_same_digit s \<and> digit_value (s ! 9) = spec_check_digit s)"
proof -
  have len: "length s = 10" and d9: "is_digit (s ! 9)"
    using assms by (simp_all add: matches_ten_digits_def list_all_length)
  define r where "r = spec_sum s mod 11"
  have r: "r < 11" by (simp add: r_def)
  have rem: "js_rem (checksum s) (Num 11) = Num (int r)"
    by (simp add: checksum_digits [OF assms] r_def sgn_if zmod_int)
  have p: "parseInt (s ! 9) = Num (int (digit_value (s ! 9)))"
    using d9 by (rule parseInt_digit)
  have sub: "js_sub (Num 11) (Num (int r)) = Num (int (11 - r))"
    using r by simp
  show ?thesis
  proof (cases "all_same_digit s")
    case True
    then show ?thesis by (simp add: validateNationalId_def)
  next
    case False
    have "validateNationalId s =
          (if r < 2 then digit_value (s ! 9) = r else digit_value (s ! 9) = 11 - r)"
      using False len r
      by (auto simp add: validateNationalId_def Let_def rem p)
    also have "\<dots> = (digit_value (s ! 9) = spec_check_digit s)"
      by (simp add: spec_check_digit_def r_def Let_def)
    finally show ?thesis using False by simp
  qed
qed

lemma validate_not_digits:
  assumes "\<not> matches_ten_digits s"
  shows "\<not> validateNationalId s"
proof (cases "length s = 10")
  case False
  then show ?thesis by (simp add: validateNationalId_def)
next
  case True
  with assms obtain i where i: "i < 10" "\<not> is_digit (s ! i)"
    by (auto simp add: matches_ten_digits_def list_all_length)
  show ?thesis
  proof (cases "i = 9")
    case True
    with i have "parseInt (s ! 9) = NaN" by (simp add: parseInt_nondigit)
    then show ?thesis
      by (simp add: validateNationalId_def Let_def)
  next
    case False
    with i have "i < 9" by simp
    with i have "checksum s = NaN"
      unfolding checksum_def by (intro fold_nondigit)
    then show ?thesis
      by (simp add: validateNationalId_def Let_def)
  qed
qed

text \<open>
  Claim C1. For every string of exactly ten decimal digits that are not all the same,
  \<open>validateNationalId\<close> returns true exactly when the tenth digit is the expected check
  digit: with the sum of the first nine digits weighted 10 down to 2 and its remainder
  modulo 11, the remainder itself when it is below 2 and 11 minus the remainder
  otherwise.
\<close>

theorem validateNationalId_checksum:
  assumes "matches_ten_digits s" and "\<not> all_identical s"
  shows "validateNationalId s = (digit_value (s ! 9) = spec_check_digit s)"
  using assms by (simp add: validate_digits all_same_digit_iff)

text \<open>
  Claim C3. For every string that does not match \<open>^\d{10}$\<close> (wrong length, empty, or
  with a character that is not a digit), \<open>validateNationalId\<close> returns false. It has no
  failing branch: the length test comes before every index, and \<open>parseInt\<close> of a
  character that is not a digit is \<open>NaN\<close>, which no comparison accepts.
\<close>

theorem validateNationalId_rejects_malformed:
  assumes "\<not> matches_ten_digits s"
  shows "validateNationalId s = False"
  using assms by (simp add: validate_not_digits)

text \<open>
  Claim C7. For every string of ten digits that are all the same, such as
  \<open>1111111111\<close>, \<open>validateNationalId\<close> returns false.
\<close>

theorem validateNationalId_rejects_identical:
  assumes "matches_ten_digits s" and "all_identical s"
  shows "validateNationalId s = False"
  using assms by (simp add: validate_digits all_same_digit_iff)

lemma digit_value_inj:
  assumes "is_digit a" and "is_digit b" and "digit_value a = digit_value b"
  shows "a = b"
proof -
  have "(of_char a :: nat) = of_char b"
    using assms unfolding is_digit_def digit_value_def by arith
  then show ?thesis by simp
qed

lemma spec_check_digit_update: "spec_check_digit (s[9 := d]) = spec_check_digit s"
  by (simp add: spec_check_digit_def spec_sum_def)

lemma matches_ten_digits_update:
  assumes "matches_ten_digits s" and "is_digit d"
  shows "matches_ten_digits (s[i := d])"
proof -
  have "set (s[i := d]) \<subseteq> insert d (set s)" by (rule set_update_subset_insert)
  with assms show ?thesis
    by (auto simp add: matches_ten_digits_def list_all_iff)
qed

lemma flip_last_digit:
  assumes ok: "validateNationalId s" and d: "is_digit d" and neq: "d \<noteq> s ! 9"
  shows "\<not> validateNationalId (s[9 := d])"
proof -
  have m: "matches_ten_digits s"
    using ok validate_not_digits by blast
  then have chk: "digit_value (s ! 9) = spec_check_digit s"
    using ok by (simp add: validate_digits)
  have d9: "is_digit (s ! 9)" and len: "length s = 10"
    using m by (simp_all add: matches_ten_digits_def list_all_length)
  have "digit_value d \<noteq> digit_value (s ! 9)"
    using digit_value_inj [OF d d9] neq by blast
  then have "digit_value (s[9 := d] ! 9) \<noteq> spec_check_digit (s[9 := d])"
    using len chk by (simp add: spec_check_digit_update)
  then show ?thesis
    by (simp add: validate_digits [OF matches_ten_digits_update [OF m d]])
qed

lemma fixture_valid: "validateNationalId ''0499370899''"
  by code_simp

text \<open>
  Claim C6. \<open>validateNationalId\<close> accepts \<open>0499370899\<close>, and whenever it accepts a
  string, replacing the last digit of that string by any other digit gives a string it
  rejects.
\<close>

theorem validateNationalId_fixture_and_flip:
  "validateNationalId ''0499370899'' \<and>
   (\<forall>s d. validateNationalId s \<longrightarrow> is_digit d \<longrightarrow> d \<noteq> s ! 9 \<longrightarrow>
      \<not> validateNationalId (s[9 := d]))"
  using fixture_valid flip_last_digit by blast

theorem validateNationalId_fixture_and_flip_witness:
  "validateNationalId ''0499370899'' \<and> is_digit CHR ''8'' \<and> CHR ''8'' \<noteq> ''0499370899'' ! 9 \<and>
   \<not> validateNationalId (''0499370899''[9 := CHR ''8''])"
proof -
  have a: "validateNationalId ''0499370899''" by code_simp
  have b: "is_digit CHR ''8''" by code_simp
  have c: "CHR ''8'' \<noteq> ''0499370899'' ! 9" by code_simp
  from validateNationalId_fixture_and_flip a b c show ?thesis by blast
qed

theorem validateNationalId_checksum_witness:
  "matches_ten_digits ''0499370899'' \<and> \<not> all_identical ''0499370899'' \<and>
   validateNationalId ''0499370899'' = (digit_value (''0499370899'' ! 9) = spec_check_digit ''0499370899'')"
proof -
  have a: "matches_ten_digits ''0499370899''" by code_simp
  have b: "\<not> all_identical ''0499370899''" by code_simp
  from validateNationalId_checksum [OF a b] a b show ?thesis by blast
qed

theorem validateNationalId_rejects_malformed_witness:
  "\<not> matches_ten_digits ''04993a0899'' \<and> validateNationalId ''04993a0899'' = False"
proof -
  have a: "\<not> matches_ten_digits ''04993a0899''" by code_simp
  from validateNationalId_rejects_malformed [OF a] a show ?thesis by blast
qed

theorem validateNationalId_rejects_identical_witness:
  "matches_ten_digits ''1111111111'' \<and> all_identical ''1111111111'' \<and>
   validateNationalId ''1111111111'' = False"
proof -
  have a: "matches_ten_digits ''1111111111''" by code_simp
  have b: "all_identical ''1111111111''" by code_simp
  from validateNationalId_rejects_identical [OF a b] a b show ?thesis by blast
qed

section \<open>Properties of validatePhoneNumber\<close>

lemma nullable_lang: "nullable r \<longleftrightarrow> [] \<in> lang r"
  by (induction r) auto

lemma lang_deriv: "lang (deriv c r) = {w. c # w \<in> lang r}"
proof (induction r)
  case (Seq r s)
  show ?case
  proof (rule set_eqI)
    fix w
    have "(c # w \<in> lang (Seq r s)) =
          ((\<exists>u v. w = u @ v \<and> c # u \<in> lang r \<and> v \<in> lang s) \<or> ([] \<in> lang r \<and> c # w \<in> lang s))"
      by (auto simp add: Cons_eq_append_conv) 
    then show "(w \<in> lang (deriv c (Seq r s))) = (w \<in> {w. c # w \<in> lang (Seq r s)})"
      using Seq by (auto simp add: nullable_lang)
  qed
qed auto

lemma regex_test_lang: "regex_test r s \<longleftrightarrow> s \<in> lang r"
  unfolding regex_test_def
  by (induction s arbitrary: r) (simp_all add: nullable_lang lang_deriv)

lemma lang_Seq_Digit: "lang (Seq Digit s) = {c # v | c v. is_digit c \<and> v \<in> lang s}"
proof (rule set_eqI)
  fix w
  show "(w \<in> lang (Seq Digit s)) = (w \<in> {c # v | c v. is_digit c \<and> v \<in> lang s})"
  proof
    assume "w \<in> lang (Seq Digit s)"
    then obtain c v where "w = [c] @ v" "is_digit c" "v \<in> lang s" by auto
    then show "w \<in> {c # v | c v. is_digit c \<and> v \<in> lang s}" by simp
  next
    assume "w \<in> {c # v | c v. is_digit c \<and> v \<in> lang s}"
    then obtain c v where w: "w = [c] @ v" and c: "is_digit c" and v: "v \<in> lang s" by auto
    from c have "[c] \<in> lang Digit" by simp
    with v w show "w \<in> lang (Seq Digit s)" unfolding lang.simps by blast
  qed
qed

lemma lang_Seq_Chr: "lang (Seq (Chr c) s) = {c # v | v. v \<in> lang s}"
  by auto

lemma lang_rep_Digit: "lang (rep n Digit) = {ds. length ds = n \<and> list_all is_digit ds}"
proof (induction n)
  case 0
  then show ?case by auto
next
  case (Suc n)
  have "lang (rep (Suc n) Digit) = {c # v | c v. is_digit c \<and> v \<in> lang (rep n Digit)}"
    by (simp only: rep.simps lang_Seq_Digit)
  also have "\<dots> = {c # v | c v. is_digit c \<and> length v = n \<and> list_all is_digit v}"
    by (simp add: Suc)
  also have "\<dots> = {ds. length ds = Suc n \<and> list_all is_digit ds}"
    by (auto simp add: length_Suc_conv)
  finally show ?case .
qed

lemma lang_body:
  "lang (Seq (Chr CHR ''9'') (rep 9 Digit)) = {t. nine_then_nine_digits t}"
proof (rule set_eqI)
  fix t
  show "(t \<in> lang (Seq (Chr CHR ''9'') (rep 9 Digit))) = (t \<in> {t. nine_then_nine_digits t})"
    unfolding lang_Seq_Chr lang_rep_Digit
    by (cases t) (auto simp add: nine_then_nine_digits_def)
qed

lemma lang_prefix:
  "lang (Opt (Alt (Seq (Chr CHR ''+'') (Seq (Chr CHR ''9'') (Chr CHR ''8''))) (Chr CHR ''0'')))
   = {[], ''+98'', ''0''}"
  by (auto simp add: lang_Seq_Chr)

lemma lang_phoneRegex: "t \<in> lang phoneRegex \<longleftrightarrow> iranian_mobile t"
proof -
  have "t \<in> lang phoneRegex \<longleftrightarrow>
        (\<exists>u v. t = u @ v \<and> u \<in> {[], ''+98'', ''0''} \<and> nine_then_nine_digits v)"
    unfolding phoneRegex_def lang.simps(5) [of "Opt _"] lang_body lang_prefix by blast
  also have "\<dots> \<longleftrightarrow> iranian_mobile t"
  proof
    assume "\<exists>u v. t = u @ v \<and> u \<in> {[], ''+98'', ''0''} \<and> nine_then_nine_digits v"
    then obtain u v where "t = u @ v" "u = [] \<or> u = ''+98'' \<or> u = ''0''" "nine_then_nine_digits v"
      by blast
    then show "iranian_mobile t"
      unfolding iranian_mobile_def by auto
  next
    assume "iranian_mobile t"
    then consider "nine_then_nine_digits t"
      | "take 3 t = ''+98''" "nine_then_nine_digits (drop 3 t)"
      | "take 1 t = ''0''" "nine_then_nine_digits (drop 1 t)"
      unfolding iranian_mobile_def by blast
    then show "\<exists>u v. t = u @ v \<and> u \<in> {[], ''+98'', ''0''} \<and> nine_then_nine_digits v"
    proof cases
      case 1
      then have "t = [] @ t \<and> [] \<in> {[], ''+98'', ''0''} \<and> nine_then_nine_digits t" by simp
      then show ?thesis by blast
    next
      case 2
      then have "t = ''+98'' @ drop 3 t \<and> ''+98'' \<in> {[], ''+98'', ''0''} \<and> nine_then_nine_digits (drop 3 t)"
        by (metis append_take_drop_id insertI1 insertI2)
      then show ?thesis by blast
    next
      case 3
      then have "t = ''0'' @ drop 1 t \<and> ''0'' \<in> {[], ''+98'', ''0''} \<and> nine_then_nine_digits (drop 1 t)"
        by (metis append_take_drop_id insertI1 insertI2)
      then show ?thesis by blast
    qed
  qed
  finally show ?thesis .
qed

text \<open>
  Claim C10. \<open>validatePhoneNumber\<close> returns true for the empty string, and for every
  other input it returns true exactly when the input without its white space (the
  characters of \<open>\s\<close>) is an Iranian mobile number: an optional prefix \<open>+98\<close> or \<open>0\<close>,
  then 9 followed by nine digits.
\<close>

theorem validatePhoneNumber_spec:
  "validatePhoneNumber [] = True \<and>
   (\<forall>phone. phone \<noteq> [] \<longrightarrow>
      validatePhoneNumber phone = iranian_mobile (filter (\<lambda>c. \<not> is_space c) phone))"
  by (simp add: validatePhoneNumber_def regex_test_lang lang_phoneRegex)

theorem validatePhoneNumber_spec_witness:
  "''0912 345 6789'' \<noteq> [] \<and>
   validatePhoneNumber ''0912 345 6789'' = iranian_mobile (filter (\<lambda>c. \<not> is_space c) ''0912 345 6789'') \<and>
   validatePhoneNumber ''0912 345 6789''"
proof -
  have a: "''0912 345 6789'' \<noteq> []" by simp
  have b: "validatePhoneNumber ''0912 345 6789''" by code_simp
  from validatePhoneNumber_spec a b show ?thesis by blast
qed

section \<open>Properties of the reconciliation\<close>

lemma set_getAllStudents: "set (getAllStudents db) = set (students db)"
  by (simp add: getAllStudents_def)

lemma set_getExpectedStudents:
  "set (getExpectedStudents (Some sid) db) =
   {r \<in> set (expected_students db). sid \<noteq> [] \<longrightarrow> upload_session_id r = Some sid}"
  by (auto simp add: getExpectedStudents_def)

lemma fold_update_students:
  "students (fold (\<lambda>e. update_is_registered_where_id (row_id e) (g e)) es db) = students db"
  by (induction es arbitrary: db) (simp_all add: update_is_registered_where_id_def)

lemma fold_update_table:
  "fold (\<lambda>e. update_is_registered_where_id (row_id e) (g e)) es db =
   db\<lparr>expected_students :=
        fold (\<lambda>e. map (\<lambda>r. if row_id r = row_id e then r\<lparr>is_registered := Some (g e)\<rparr> else r))
             es (expected_students db)\<rparr>"
  by (induction es arbitrary: db) (simp_all add: update_is_registered_where_id_def)

lemma fold_map_by_id:
  assumes "\<forall>e \<in> set es. g e = G (row_id e)"
  shows "fold (\<lambda>e. map (\<lambda>r. if row_id r = row_id e then r\<lparr>is_registered := Some (g e)\<rparr> else r)) es t =
         map (\<lambda>r. if row_id r \<in> row_id ` set es then r\<lparr>is_registered := Some (G (row_id r))\<rparr> else r) t"
  using assms
proof (induction es arbitrary: t)
  case Nil
  then show ?case by simp
next
  case (Cons e es)
  have "\<forall>e \<in> set es. g e = G (row_id e)" using Cons.prems by simp
  note IH = Cons.IH [OF this]
  have ge: "g e = G (row_id e)" using Cons.prems by simp
  show ?case
    by (simp add: IH ge)
qed

lemma fold_map_selected:
  assumes inj: "distinct (map row_id t)" and sub: "set es \<subseteq> set t"
  shows "fold (\<lambda>e. map (\<lambda>r. if row_id r = row_id e then r\<lparr>is_registered := Some (g e)\<rparr> else r)) es t =
         map (\<lambda>r. if r \<in> set es then r\<lparr>is_registered := Some (g r)\<rparr> else r) t"
proof -
  have inj_on: "inj_on row_id (set t)" using inj by (simp add: distinct_map)
  define G where "G i = (\<exists>e \<in> set es. row_id e = i \<and> g e)" for i
  have G: "\<forall>e \<in> set es. g e = G (row_id e)"
  proof
    fix e assume e: "e \<in> set es"
    have "\<And>e'. e' \<in> set es \<Longrightarrow> row_id e' = row_id e \<Longrightarrow> e' = e"
      using inj_on sub e by (meson inj_onD subsetD)
    then show "g e = G (row_id e)" using e unfolding G_def by blast
  qed
  show ?thesis
    unfolding fold_map_by_id [OF G]
  proof (rule map_cong [OF refl])
    fix r assume r: "r \<in> set t"
    have mem: "(row_id r \<in> row_id ` set es) = (r \<in> set es)"
    proof
      assume "row_id r \<in> row_id ` set es"
      then obtain e where "e \<in> set es" "row_id e = row_id r" by auto
      then show "r \<in> set es" using inj_on sub r by (metis inj_onD subsetD)
    qed simp
    show "(if row_id r \<in> row_id ` set es then r\<lparr>is_registered := Some (G (row_id r))\<rparr> else r) =
          (if r \<in> set es then r\<lparr>is_registered := Some (g r)\<rparr> else r)"
      using G by (simp add: mem)
  qed
qed

lemma updateRegistrationStatus_eq:
  assumes "primary_key db"
  shows "updateRegistrationStatus sid db =
         db\<lparr>expected_students :=
              map (\<lambda>r. if sid \<noteq> [] \<longrightarrow> upload_session_id r = Some sid
                        then r\<lparr>is_registered := Some (national_id r \<in> student_national_id ` set (students db))\<rparr>
                        else r)
                  (expected_students db)\<rparr>"
proof -
  let ?es = "getExpectedStudents (Some sid) db"
  let ?g = "\<lambda>r. national_id r \<in> student_national_id ` set (students db)"
  have sub: "set ?es \<subseteq> set (expected_students db)"
    by (auto simp add: set_getExpectedStudents)
  have d: "distinct (map row_id (expected_students db))"
    using assms by (simp add: primary_key_def)
  have "updateRegistrationStatus sid db =
        fold (\<lambda>e. update_is_registered_where_id (row_id e) (?g e)) ?es db"
    by (simp add: updateRegistrationStatus_def Let_def set_getAllStudents)
  also have "\<dots> = db\<lparr>expected_students :=
        map (\<lambda>r. if r \<in> set ?es then r\<lparr>is_registered := Some (?g r)\<rparr> else r) (expected_students db)\<rparr>"
    by (simp only: fold_update_table fold_map_selected [OF d sub])
  also have "map (\<lambda>r. if r \<in> set ?es then r\<lparr>is_registered := Some (?g r)\<rparr> else r) (expected_students db) =
        map (\<lambda>r. if sid \<noteq> [] \<longrightarrow> upload_session_id r = Some sid
                        then r\<lparr>is_registered := Some (?g r)\<rparr> else r) (expected_students db)"
    by (rule map_cong [OF refl]) (simp add: set_getExpectedStudents)
  finally show ?thesis .
qed


lemma expected_students_update:
  "expected_students (db\<lparr>expected_students := x\<rparr>) = x"
  "students (db\<lparr>expected_students := x\<rparr>) = students db"
  "db\<lparr>expected_students := x\<rparr>\<lparr>expected_students := y\<rparr> = db\<lparr>expected_students := y\<rparr>"
  by simp_all

lemma row_id_map_flag:
  "map row_id (map (\<lambda>r. if P r then r\<lparr>is_registered := f r\<rparr> else r) xs) = map row_id xs"
  by (induction xs) auto

lemma primary_key_update:
  "primary_key (db\<lparr>expected_students := map (\<lambda>r. if P r then r\<lparr>is_registered := f r\<rparr> else r) (expected_students db)\<rparr>)
   = primary_key db"
  by (simp only: primary_key_def row_id_map_flag expected_students_update)

text \<open>
  Claim C2. For the expected records of a batch and the registered students of the
  database: (a) \<open>getUnregisteredStudents\<close> returns exactly the expected records whose
  identity number is not among the identity numbers of the registered students, in
  the order of the expected list; (b) \<open>updateRegistrationStatus\<close> writes to every
  expected record the flag "its identity number is among those of the registered
  students", whether or not the flag changes, and writes nothing else. The rows of
  \<open>expected_students\<close> have distinct identifiers, as the primary key of the table
  guarantees.
\<close>

theorem reconciliation_result:
  assumes "primary_key db"
  shows "getUnregisteredStudents sid db =
           filter (\<lambda>e. national_id e \<notin> student_national_id ` set (students db))
                  (getExpectedStudents (Some sid) db) \<and>
         expected_students (updateRegistrationStatus sid db) =
           map (\<lambda>r. if r \<in> set (getExpectedStudents (Some sid) db)
                     then r\<lparr>is_registered := Some (national_id r \<in> student_national_id ` set (students db))\<rparr>
                     else r)
               (expected_students db)"
proof
  show "getUnregisteredStudents sid db =
           filter (\<lambda>e. national_id e \<notin> student_national_id ` set (students db))
                  (getExpectedStudents (Some sid) db)"
    by (simp add: getUnregisteredStudents_def Let_def set_getAllStudents)
next
  have "map (\<lambda>r. if sid \<noteq> [] \<longrightarrow> upload_session_id r = Some sid
                   then r\<lparr>is_registered := Some (national_id r \<in> student_national_id ` set (students db))\<rparr>
                   else r) (expected_students db) =
        map (\<lambda>r. if r \<in> set (getExpectedStudents (Some sid) db)
                     then r\<lparr>is_registered := Some (national_id r \<in> student_national_id ` set (students db))\<rparr>
                     else r) (expected_students db)"
    by (rule map_cong [OF refl]) (simp add: set_getExpectedStudents)
  then show "expected_students (updateRegistrationStatus sid db) =
           map (\<lambda>r. if r \<in> set (getExpectedStudents (Some sid) db)
                     then r\<lparr>is_registered := Some (national_id r \<in> student_national_id ` set (students db))\<rparr>
                     else r)
               (expected_students db)"
    by (simp add: updateRegistrationStatus_eq [OF assms])
qed

theorem reconciliation_result_witness:
  "primary_key example_db \<and>
   getUnregisteredStudents ''B1'' example_db = [example_expected_2] \<and>
   expected_students (updateRegistrationStatus ''B1'' example_db) =
     [example_expected_1\<lparr>is_registered := Some True\<rparr>, example_expected_2, example_expected_3]"
proof -
  have pk: "primary_key example_db" by code_simp
  have f: "filter (\<lambda>e. national_id e \<notin> student_national_id ` set (students example_db))
                  (getExpectedStudents (Some ''B1'') example_db) = [example_expected_2]"
    by code_simp
  have m: "map (\<lambda>r. if r \<in> set (getExpectedStudents (Some ''B1'') example_db)
                     then r\<lparr>is_registered := Some (national_id r \<in> student_national_id ` set (students example_db))\<rparr>
                     else r)
               (expected_students example_db) =
           [example_expected_1\<lparr>is_registered := Some True\<rparr>, example_expected_2, example_expected_3]"
    by code_simp
  from reconciliation_result [OF pk, of "''B1''"] pk show ?thesis
    by (simp only: f m)
qed

lemma map_of_flags:
  "map_of (map (\<lambda>e. (national_id e, national_id e \<in> S)) es) =
   (\<lambda>k. if k \<in> national_id ` set es then Some (k \<in> S) else None)"
  by (induction es) (auto simp add: fun_eq_iff)

lemma selected_after_update:
  assumes P: "\<And>r. P (H r) = P r"
  shows "{r \<in> set (map H t). P r} = H ` {r \<in> set t. P r}"
  using P by auto

lemma national_ids_after_update:
  assumes "primary_key db"
  shows "national_id ` set (getExpectedStudents (Some sid) (updateRegistrationStatus sid db)) =
         national_id ` set (getExpectedStudents (Some sid) db)"
proof -
  define H :: "ExpectedStudent \<Rightarrow> ExpectedStudent" where
    "H = (\<lambda>r. if sid \<noteq> [] \<longrightarrow> upload_session_id r = Some sid
              then r\<lparr>is_registered := Some (national_id r \<in> student_national_id ` set (students db))\<rparr>
              else r)"
  define P :: "ExpectedStudent \<Rightarrow> bool" where
    "P = (\<lambda>r. sid \<noteq> [] \<longrightarrow> upload_session_id r = Some sid)"
  have P: "\<And>r. P (H r) = P r" by (simp add: P_def H_def)
  have n: "\<And>r. national_id (H r) = national_id r" by (simp add: H_def)
  have "set (getExpectedStudents (Some sid) (updateRegistrationStatus sid db)) =
        {r \<in> set (map H (expected_students db)). P r}"
    by (simp only: set_getExpectedStudents updateRegistrationStatus_eq [OF assms] H_def P_def expected_students_update)
  also have "\<dots> = H ` {r \<in> set (expected_students db). P r}"
    using P by (rule selected_after_update [of P H])
  finally have "national_id ` set (getExpectedStudents (Some sid) (updateRegistrationStatus sid db)) =
        (\<lambda>r. national_id (H r)) ` {r \<in> set (expected_students db). P r}"
    by (simp only: image_image)
  then show ?thesis
    by (simp only: n set_getExpectedStudents P_def)
qed

lemma flag_update_twice:
  "map (\<lambda>r. if P (upload_session_id r) then r\<lparr>is_registered := Some (g (national_id r))\<rparr> else r)
     (map (\<lambda>r. if P (upload_session_id r) then r\<lparr>is_registered := Some (g (national_id r))\<rparr> else r) t)
   = map (\<lambda>r. if P (upload_session_id r) then r\<lparr>is_registered := Some (g (national_id r))\<rparr> else r) t"
  by (induction t) auto

text \<open>
  Claim C4. Reconciliation is idempotent: after a run, a second run with the same
  batch and the same registered students computes the same mapping of updates, and
  applying it leaves the database as the first run left it.
\<close>

theorem reconciliation_idempotent:
  assumes "primary_key db"
  shows "registration_updates sid (updateRegistrationStatus sid db) = registration_updates sid db \<and>
         updateRegistrationStatus sid (updateRegistrationStatus sid db) = updateRegistrationStatus sid db"
proof
  have st: "students (updateRegistrationStatus sid db) = students db"
    by (simp add: updateRegistrationStatus_eq [OF assms])
  show "registration_updates sid (updateRegistrationStatus sid db) = registration_updates sid db"
    by (simp only: registration_updates_def map_of_flags set_getAllStudents set_map st
          national_ids_after_update [OF assms])
next
  let ?H = "\<lambda>r. if sid \<noteq> [] \<longrightarrow> upload_session_id r = Some sid
                 then r\<lparr>is_registered := Some (national_id r \<in> student_national_id ` set (students db))\<rparr>
                 else r"
  let ?db' = "db\<lparr>expected_students := map ?H (expected_students db)\<rparr>"
  have pk': "primary_key ?db'"
    using assms by (simp only: primary_key_update)
  have twice: "map ?H (map ?H (expected_students db)) = map ?H (expected_students db)"
    by (rule flag_update_twice [of "\<lambda>u. sid \<noteq> [] \<longrightarrow> u = Some sid" "\<lambda>n. n \<in> student_national_id ` set (students db)"])
  have "updateRegistrationStatus sid ?db' = ?db'"
    by (simp only: updateRegistrationStatus_eq [OF pk'] expected_students_update twice)
  then show "updateRegistrationStatus sid (updateRegistrationStatus sid db) = updateRegistrationStatus sid db"
    by (simp only: updateRegistrationStatus_eq [OF assms])
qed

theorem reconciliation_idempotent_witness:
  "primary_key example_db \<and>
   registration_updates ''B1'' (updateRegistrationStatus ''B1'' example_db) = registration_updates ''B1'' example_db \<and>
   updateRegistrationStatus ''B1'' (updateRegistrationStatus ''B1'' example_db) = updateRegistrationStatus ''B1'' example_db"
proof -
  have pk: "primary_key example_db" by code_simp
  from reconciliation_idempotent [OF pk, of "''B1''"] pk show ?thesis by blast
qed

text \<open>
  Claim C5 as stated fails for the empty batch identifier: \<open>getExpectedStudents\<close> adds
  its filter only when the identifier is truthy, so a run on \<open>''\<close> rewrites the flag of
  a record of batch \<open>B1\<close>.
\<close>

theorem reconciliation_frame_counterexample:
  "primary_key example_db \<and>
   expected_students example_db ! 0 = example_expected_1 \<and>
   upload_session_id example_expected_1 \<noteq> Some [] \<and>
   is_registered example_expected_1 = Some False \<and>
   is_registered (expected_students (updateRegistrationStatus [] example_db) ! 0) = Some True"
  by code_simp

text \<open>
  Claim C5, amended. A run of \<open>updateRegistrationStatus\<close> changes nothing in the
  database but the table of expected students; there, each row keeps every field
  except possibly \<open>is_registered\<close>; and when the batch identifier is not empty, a row
  whose batch identifier differs from it is unchanged. (With the empty identifier the
  run covers the expected records of every batch.)
\<close>

theorem reconciliation_frame:
  assumes "primary_key db"
  shows "updateRegistrationStatus sid db =
           db\<lparr>expected_students := expected_students (updateRegistrationStatus sid db)\<rparr> \<and>
         students (updateRegistrationStatus sid db) = students db \<and>
         list_all2 (\<lambda>r r'. r' = r\<lparr>is_registered := is_registered r'\<rparr> \<and>
                            (sid \<noteq> [] \<and> upload_session_id r \<noteq> Some sid \<longrightarrow> r' = r))
                   (expected_students db) (expected_students (updateRegistrationStatus sid db))"
  by (simp add: updateRegistrationStatus_eq [OF assms] list_all2_map2 list_all2_same)

theorem reconciliation_frame_witness:
  "primary_key example_db \<and>
   students (updateRegistrationStatus ''B1'' example_db) = students example_db \<and>
   list_all2 (\<lambda>r r'. r' = r\<lparr>is_registered := is_registered r'\<rparr> \<and>
                      (''B1'' \<noteq> [] \<and> upload_session_id r \<noteq> Some ''B1'' \<longrightarrow> r' = r))
             (expected_students example_db) (expected_students (updateRegistrationStatus ''B1'' example_db))"
proof -
  have pk: "primary_key example_db" by code_simp
  from reconciliation_frame [OF pk, of "''B1''"] pk show ?thesis by blast
qed










section \<open>Properties of the ingestion\<close>

lemma validate_length: "validateNationalId s \<Longrightarrow> length s = 10"
  by (simp add: validateNationalId_def split: if_splits)

lemma sanitizeInput_isl: "isl (sanitizeInput v) = (case v of Text s \<Rightarrow> False | _ \<Rightarrow> True)"
  by (simp add: sanitizeInput_def split: cell.splits)

lemma process_row_cases:
  "process_row r =
     (if missing_field r then Inl RequiredFieldsMissing
      else if invalid_identity r then Inl InvalidNationalId
      else if invalid_class r then Inl InvalidClass
      else if \<not> names_are_text r then Inl ProcessingError
      else Inr \<lparr>first_name = projr (sanitizeInput (firstName_of r)),
                last_name = projr (sanitizeInput (lastName_of r)),
                national_id = nationalId_of r, class_name = className_of r,
                is_registered = Some False, upload_session_id = None\<rparr>)"
proof -
  have len: "(length (nationalId_of r) \<noteq> 10 \<or> \<not> validateNationalId (nationalId_of r)) = invalid_identity r"
    using validate_length [of "nationalId_of r"] by (auto simp add: invalid_identity_def)
  show ?thesis
    unfolding process_row_def Let_def len
    by (auto simp add: missing_field_def invalid_class_def names_are_text_def sanitizeInput_def
             split: cell.splits)
qed

lemma row_step_pair:
  "row_step (i, r) (S, E) =
     (case process_row r of Inl e \<Rightarrow> (S, E @ [(i + 2, e)]) | Inr s \<Rightarrow> (S @ [s], E))"
  by (simp add: row_step_def)

lemma fold_row_step:
  "fold row_step ps (S, E) =
     (S @ map projr (filter (\<lambda>x. \<not> isl x) (map (\<lambda>p. process_row (snd p)) ps)),
      E @ map (\<lambda>p. (fst p + 2, projl (process_row (snd p))))
              (filter (\<lambda>p. isl (process_row (snd p))) ps))"
proof (induction ps arbitrary: S E)
  case Nil
  then show ?case by simp
next
  case (Cons p ps)
  obtain i r where p: "p = (i, r)" by (cases p)
  show ?case
  proof (cases "process_row r")
    case (Inl e)
    then show ?thesis by (simp add: p row_step_pair Cons.IH)
  next
    case (Inr s)
    then show ?thesis by (simp add: p row_step_pair Cons.IH)
  qed
qed

lemma process_rows_fst:
  "fst (process_rows excelData) = map projr (filter (\<lambda>x. \<not> isl x) (map process_row excelData))"
proof -
  have "map (\<lambda>p. process_row (snd p)) (enumerate 0 excelData) = map process_row excelData"
    using map_snd_enumerate [of 0 excelData] map_map [of process_row snd "enumerate 0 excelData"]
    by (simp add: o_def)
  then show ?thesis by (simp add: process_rows_def fold_row_step)
qed

lemma process_rows_snd:
  "snd (process_rows excelData) =
     map (\<lambda>p. (fst p + 2, projl (process_row (snd p))))
         (filter (\<lambda>p. isl (process_row (snd p))) (enumerate 0 excelData))"
  by (simp add: process_rows_def fold_row_step)

lemma process_rows_length:
  "length (fst (process_rows excelData)) + length (snd (process_rows excelData)) = length excelData"
proof -
  let ?ps = "enumerate 0 excelData"
  have "length (fst (process_rows excelData)) = length (filter (\<lambda>p. \<not> isl (process_row (snd p))) ?ps)"
    by (simp add: process_rows_def fold_row_step filter_map o_def)
  moreover have "length (snd (process_rows excelData)) = length (filter (\<lambda>p. isl (process_row (snd p))) ?ps)"
    by (simp add: process_rows_snd)
  moreover have "length (filter (\<lambda>p. isl (process_row (snd p))) ?ps) +
                 length (filter (\<lambda>p. \<not> isl (process_row (snd p))) ?ps) = length ?ps"
    by (rule sum_length_filter_compl)
  ultimately show ?thesis by simp
qed


text \<open>
  Claim C8 as stated names three defects of a row (a missing required field, an
  invalid identity number, an invalid class label) and has every other row kept. A row
  whose given name is a numeric cell has none of the three, yet it is not kept:
  \<open>sanitizeInput\<close> fails on it, the \<open>catch\<close> of the callback records a processing error
  for the row, and a file of that one row is refused as having no valid record.
\<close>

theorem ingestion_three_defects_counterexample:
  "\<not> missing_field example_row_numeric_name \<and>
   \<not> invalid_identity example_row_numeric_name \<and>
   \<not> invalid_class example_row_numeric_name \<and>
   process_rows [example_row_numeric_name] = ([], [(2, ProcessingError)]) \<and>
   handleFileUpload [example_row_numeric_name] ''B3'' example_db =
     (Inl (NoValidRecords [(2, ProcessingError)]), example_db)"
  by code_simp

text \<open>
  Claim C8, amended. For every parsed spreadsheet with at least one row: each row is
  either kept or recorded as exactly one error carrying its row number (index + 2),
  both in the order of the rows; a row is rejected when a required field is missing,
  when its identity number is invalid, when its class label is invalid, or when a name
  cell is not text, in this order of precedence, and is kept otherwise; when no row is
  kept the upload fails with the batch-level error, carrying the first five row errors
  and leaving the database as it was; otherwise the kept rows, and only they, are
  handed to \<open>uploadExpectedStudents\<close>.
\<close>

theorem ingestion_partial_success:
  assumes "excelData \<noteq> []"
  shows "(\<forall>r \<in> set excelData.
            process_row r =
              (if missing_field r then Inl RequiredFieldsMissing
               else if invalid_identity r then Inl InvalidNationalId
               else if invalid_class r then Inl InvalidClass
               else if \<not> names_are_text r then Inl ProcessingError
               else Inr \<lparr>first_name = projr (sanitizeInput (firstName_of r)),
                         last_name = projr (sanitizeInput (lastName_of r)),
                         national_id = nationalId_of r, class_name = className_of r,
                         is_registered = Some False, upload_session_id = None\<rparr>)) \<and>
         fst (process_rows excelData) =
           map projr (filter (\<lambda>x. \<not> isl x) (map process_row excelData)) \<and>
         snd (process_rows excelData) =
           map (\<lambda>p. (fst p + 2, projl (process_row (snd p))))
               (filter (\<lambda>p. isl (process_row (snd p))) (enumerate 0 excelData)) \<and>
         (fst (process_rows excelData) = [] \<longrightarrow>
            handleFileUpload excelData sessionId db =
              (Inl (NoValidRecords (take 5 (snd (process_rows excelData)))), db)) \<and>
         (fst (process_rows excelData) \<noteq> [] \<longrightarrow>
            handleFileUpload excelData sessionId db =
              (case uploadExpectedStudents (fst (process_rows excelData)) sessionId db of
                 (Inl e, db') \<Rightarrow> (Inl (BackendError e), db')
               | (Inr data, db') \<Rightarrow>
                   (Inr (data, length (fst (process_rows excelData)),
                         length (snd (process_rows excelData))), db')))"
proof -
  obtain S E where SE: "process_rows excelData = (S, E)" by (cases "process_rows excelData")
  have len: "length S + length E = length excelData"
    using process_rows_length [of excelData] SE by simp
  have empty: "S = [] \<Longrightarrow> E \<noteq> []"
    using len assms by auto
  have fs: "fst (process_rows excelData) = S" "snd (process_rows excelData) = E"
    by (simp_all add: SE)
  have a: "fst (process_rows excelData) = [] \<longrightarrow>
            handleFileUpload excelData sessionId db =
              (Inl (NoValidRecords (take 5 (snd (process_rows excelData)))), db)"
    using assms empty by (auto simp add: handleFileUpload_def SE)
  have b: "fst (process_rows excelData) \<noteq> [] \<longrightarrow>
            handleFileUpload excelData sessionId db =
              (case uploadExpectedStudents (fst (process_rows excelData)) sessionId db of
                 (Inl e, db') \<Rightarrow> (Inl (BackendError e), db')
               | (Inr data, db') \<Rightarrow>
                   (Inr (data, length (fst (process_rows excelData)),
                         length (snd (process_rows excelData))), db'))"
    unfolding fs using assms by (simp add: handleFileUpload_def SE)
  have c: "\<forall>r \<in> set excelData.
            process_row r =
              (if missing_field r then Inl RequiredFieldsMissing
               else if invalid_identity r then Inl InvalidNationalId
               else if invalid_class r then Inl InvalidClass
               else if \<not> names_are_text r then Inl ProcessingError
               else Inr \<lparr>first_name = projr (sanitizeInput (firstName_of r)),
                         last_name = projr (sanitizeInput (lastName_of r)),
                         national_id = nationalId_of r, class_name = className_of r,
                         is_registered = Some False, upload_session_id = None\<rparr>)"
    using process_row_cases by blast
  from c process_rows_fst [of excelData] process_rows_snd [of excelData] a b
  show ?thesis by (intro conjI)
qed

theorem ingestion_partial_success_witness:
  "[example_row_bad_id, example_row] \<noteq> [] \<and>
   fst (process_rows [example_row_bad_id, example_row]) =
     map projr (filter (\<lambda>x. \<not> isl x) (map process_row [example_row_bad_id, example_row])) \<and>
   process_rows [example_row_bad_id, example_row] =
     ([\<lparr>first_name = ''Reza'', last_name = ''Ahmadi Nejad'', national_id = ''0499370899'',
        class_name = ''801'', is_registered = Some False, upload_session_id = None\<rparr>],
      [(2, InvalidNationalId)]) \<and>
   handleFileUpload [example_row_bad_id] ''B3'' example_db =
     (Inl (NoValidRecords [(2, InvalidNationalId)]), example_db)"
proof -
  have ne: "[example_row_bad_id, example_row] \<noteq> []" by simp
  have v: "process_rows [example_row_bad_id, example_row] =
     ([\<lparr>first_name = ''Reza'', last_name = ''Ahmadi Nejad'', national_id = ''0499370899'',
        class_name = ''801'', is_registered = Some False, upload_session_id = None\<rparr>],
      [(2, InvalidNationalId)])"
    by code_simp
  have ne1: "[example_row_bad_id] \<noteq> []" by simp
  have v1: "process_rows [example_row_bad_id] = ([], [(2, InvalidNationalId)])"
    by code_simp
  have t: "fst (process_rows [example_row_bad_id, example_row]) =
     map projr (filter (\<lambda>x. \<not> isl x) (map process_row [example_row_bad_id, example_row]))"
    using ingestion_partial_success [OF ne, of "''B3''" example_db] by blast
  have "fst (process_rows [example_row_bad_id]) = [] \<longrightarrow>
        handleFileUpload [example_row_bad_id] ''B3'' example_db =
          (Inl (NoValidRecords (take 5 (snd (process_rows [example_row_bad_id])))), example_db)"
    using ingestion_partial_success [OF ne1, of "''B3''" example_db] by blast
  then have h: "handleFileUpload [example_row_bad_id] ''B3'' example_db =
     (Inl (NoValidRecords [(2, InvalidNationalId)]), example_db)"
    by (simp add: v1)
  from ne t v h show ?thesis by blast
qed

end
